theory Spec2Isabelle
  imports Main "HOL-Library.AList"
begin

section \<open>Python string helpers used by the handlers\<close>

text \<open>
  A Python \<open>str\<close> is a \<open>string\<close>.  \<open>s.split(c)\<close> with a one-character separator cuts at
  every occurrence of the separator and always returns at least one piece: the empty
  text gives one empty piece, and a text ending in the separator gives a last empty piece.
\<close>

fun py_split :: "char \<Rightarrow> string \<Rightarrow> string list" where
  "py_split c [] = [[]]"
| "py_split c (x # xs) =
     (if x = c then [] # py_split c xs
      else (case py_split c xs of
              [] \<Rightarrow> [[x]]
            | l # ls \<Rightarrow> (x # l) # ls))"

text \<open>\<open>sep.join(xs)\<close>: the pieces with the separator between neighbours.\<close>

fun py_join :: "string \<Rightarrow> string list \<Rightarrow> string" where
  "py_join sep [] = []"
| "py_join sep [x] = x"
| "py_join sep (x # y # ys) = x @ sep @ py_join sep (y # ys)"

text \<open>\<open>xs.insert(i, x)\<close> for \<open>0 \<le> i\<close>: an index beyond the end appends.\<close>

definition py_insert :: "nat \<Rightarrow> 'a \<Rightarrow> 'a list \<Rightarrow> 'a list" where
  "py_insert i x xs = take i xs @ x # drop i xs"

definition COMMASPACE :: string where
  "COMMASPACE = '', ''"

definition NEWLINE :: string where
  "NEWLINE = [CHR 0x0A]"

section \<open>The transaction\<close>

text \<open>The peer is the pair \<open>(host, port)\<close> of the client; \<open>peer[0]\<close> is the host.\<close>

record peer =
  host :: string
  port :: int

text \<open>
  The body of a transaction is a \<open>str\<close> or a \<open>bytes\<close> object.  Both are lists of
  8-bit characters here, so a \<open>str\<close> of this model holds code points below 256 only.
  An object that is neither is \<open>NeitherStrNorBytes\<close>.
\<close>

datatype content = Str string | Bytes string

datatype pyobject = Content content | NeitherStrNorBytes

text \<open>
  The exceptions the handlers meet.  \<open>SMTPRecipientsRefused\<close> carries its \<open>recipients\<close>
  dict, a Python dict from recipient to \<open>(code, message)\<close>.  \<open>SMTPException\<close> stands for
  every other exception of that class, with its attributes \<open>smtp_code\<close> and
  \<open>smtp_error\<close> when it has them; \<open>OSError\<close> for the operating-system errors, which
  have neither.  \<open>TypeError\<close> is what a \<open>bytes\<close> object raises when it is asked to
  split at a \<open>str\<close> separator.  \<open>UnicodeEncodeError\<close> is what \<open>sendmail\<close> raises for
  a \<open>str\<close> message that is not ASCII; \<open>OtherException\<close> is any further exception
  outside the classes of \<open>OSError\<close> and \<open>SMTPException\<close>.  \<open>AssertionError\<close> is the
  failed \<open>assert\<close> of the message handlers, \<open>UsageError\<close> the outcome of
  \<open>parser.error(message)\<close>, which reports the usage message and does not return.

  A dict is an association list with one entry per key: \<open>refused[r] = v\<close> is
  \<open>AList.update r v\<close>, which replaces the value of a key already there and otherwise
  adds the entry at the end.
\<close>

type_synonym refusals = "(string \<times> (int \<times> string)) list"

datatype exn =
    SMTPRecipientsRefused refusals
  | SMTPException "int option" "string option"
  | OSError
  | TypeError
  | UnicodeEncodeError
  | OtherException
  | AssertionError
  | UsageError string

section \<open>Proxy: the header line inserted before delivery\<close>

text \<open>
  The loop of \<open>Proxy.process_message\<close> that looks for the last header: \<open>i\<close> counts the
  lines passed before the first empty one, and is the number of lines when none is empty.
\<close>

fun last_header_index :: "string list \<Rightarrow> nat" where
  "last_header_index [] = 0"
| "last_header_index (line # lines) =
     (if line = [] then 0 else Suc (last_header_index lines))"

definition x_peer_line :: "peer \<Rightarrow> string" where
  "x_peer_line p = ''X-Peer: '' @ host p"

text \<open>
  The first lines of \<open>Proxy.process_message\<close>, up to \<open>lines.insert\<close>.  The body is cut
  with \<open>data.split('\n')\<close>, whose separator is a \<open>str\<close>: a \<open>str\<close> body is cut at
  every line feed, a \<open>bytes\<close> body raises \<open>TypeError\<close> there.
\<close>

definition Proxy_lines :: "peer \<Rightarrow> content \<Rightarrow> exn + string list" where
  "Proxy_lines p data =
     (case data of
        Bytes b \<Rightarrow> Inl TypeError
      | Str s \<Rightarrow>
          (let lines = py_split (CHR 0x0A) s;
               i = last_header_index lines
           in Inr (py_insert i (x_peer_line p) lines)))"

text \<open>The text that \<open>NEWLINE.join(lines)\<close> then gives.\<close>

definition Proxy_data :: "peer \<Rightarrow> content \<Rightarrow> exn + string" where
  "Proxy_data p data =
     (case Proxy_lines p data of
        Inl e \<Rightarrow> Inl e
      | Inr lines \<Rightarrow> Inr (py_join NEWLINE lines))"

section \<open>Proxy: delivery to the remote endpoint\<close>

fun smtp_code :: "exn \<Rightarrow> int option" where
  "smtp_code (SMTPException c m) = c"
| "smtp_code _ = None"

fun smtp_error :: "exn \<Rightarrow> string option" where
  "smtp_error (SMTPException c m) = m"
| "smtp_error _ = None"

text \<open>The classes named by \<open>except (OSError, smtplib.SMTPException)\<close>.\<close>

fun is_OSError_or_SMTPException :: "exn \<Rightarrow> bool" where
  "is_OSError_or_SMTPException (SMTPRecipientsRefused d) = True"
| "is_OSError_or_SMTPException (SMTPException c m) = True"
| "is_OSError_or_SMTPException OSError = True"
| "is_OSError_or_SMTPException _ = False"

text \<open>
  What the remote endpoint does, as seen through the \<open>smtplib.SMTP\<close> object: the outcome
  of \<open>connect(host, port)\<close>, of \<open>sendmail(mailfrom, rcpttos, data)\<close> (the dict of refused
  recipients, or an exception), and of \<open>quit()\<close>, which may depend on how \<open>sendmail\<close>
  ended.
\<close>

record smtp =
  connect :: "string \<Rightarrow> int \<Rightarrow> exn + unit"
  sendmail :: "string \<Rightarrow> string list \<Rightarrow> string \<Rightarrow> exn + refusals"
  quit :: "exn + refusals \<Rightarrow> exn + unit"

text \<open>The calls made on the session and the records written to the log, in order.\<close>

datatype event =
    Connect string int
  | Sendmail string "string list" string
  | Quit
  | Log_info string
  | Log_exception exn
  | Log_refusals refusals

fun is_call :: "event \<Rightarrow> bool" where
  "is_call (Connect h n) = True"
| "is_call (Sendmail f r d) = True"
| "is_call Quit = True"
| "is_call _ = False"

record proxy =
  hostname :: string
  remote_port :: int

text \<open>
  The body of the outer \<open>try\<close> of \<open>Proxy._deliver\<close>: the exception that leaves it (if
  any), the value of the local \<open>refused\<close> at that point, and the calls made.  \<open>connect\<close>
  is outside the inner \<open>try\<close>, so its failure leaves at once.  After \<open>connect\<close>,
  \<open>sendmail\<close> runs and then \<open>quit\<close> in the \<open>finally\<close> clause; an exception of \<open>quit\<close>
  replaces the one of \<open>sendmail\<close>.
\<close>

definition Proxy_session ::
  "smtp \<Rightarrow> proxy \<Rightarrow> string \<Rightarrow> string list \<Rightarrow> string \<Rightarrow> exn option \<times> refusals \<times> event list" where
  "Proxy_session s self mailfrom rcpttos data =
     (case connect s (hostname self) (remote_port self) of
        Inl e \<Rightarrow> (Some e, [], [Connect (hostname self) (remote_port self)])
      | Inr u \<Rightarrow>
          (let r = sendmail s mailfrom rcpttos data;
               refused = (case r of Inl e \<Rightarrow> [] | Inr d \<Rightarrow> d);
               tr = [Connect (hostname self) (remote_port self),
                     Sendmail mailfrom rcpttos data, Quit]
           in case quit s r of
                Inl e' \<Rightarrow> (Some e', refused, tr)
              | Inr u' \<Rightarrow>
                  (case r of
                     Inl e \<Rightarrow> (Some e, refused, tr)
                   | Inr d \<Rightarrow> (None, refused, tr))))"

text \<open>The second handler: every recipient is refused with the code and message of \<open>e\<close>.\<close>

definition refuse_all :: "exn \<Rightarrow> string list \<Rightarrow> refusals \<Rightarrow> refusals" where
  "refuse_all e rcpttos refused =
     (let errcode = (case smtp_code e of None \<Rightarrow> - 1 | Some c \<Rightarrow> c);
          errmsg = (case smtp_error e of None \<Rightarrow> ''ignore'' | Some m \<Rightarrow> m)
      in fold (\<lambda>r d. AList.update r (errcode, errmsg) d) rcpttos refused)"

definition Proxy_deliver ::
  "smtp \<Rightarrow> proxy \<Rightarrow> string \<Rightarrow> string list \<Rightarrow> string \<Rightarrow> (exn + refusals) \<times> event list" where
  "Proxy_deliver s self mailfrom rcpttos data =
     (case Proxy_session s self mailfrom rcpttos data of
        (None, refused, tr) \<Rightarrow> (Inr refused, tr)
      | (Some (SMTPRecipientsRefused recipients), refused, tr) \<Rightarrow>
          (Inr recipients, tr @ [Log_info ''got SMTPRecipientsRefused''])
      | (Some e, refused, tr) \<Rightarrow>
          (if is_OSError_or_SMTPException e
           then (Inr (refuse_all e rcpttos refused), tr @ [Log_exception e])
           else (Inl e, tr)))"

text \<open>
  \<open>Proxy.process_message\<close>: an exception of the first lines leaves before any call on the
  session; an exception that \<open>_deliver\<close> does not catch leaves before the log record.
\<close>

definition Proxy_process_message ::
  "smtp \<Rightarrow> proxy \<Rightarrow> peer \<Rightarrow> string \<Rightarrow> string list \<Rightarrow> content \<Rightarrow> (exn + unit) \<times> event list" where
  "Proxy_process_message s self p mailfrom rcpttos data =
     (case Proxy_data p data of
        Inl e \<Rightarrow> (Inl e, [])
      | Inr text \<Rightarrow>
          (case Proxy_deliver s self mailfrom rcpttos text of
             (Inl e, tr) \<Rightarrow> (Inl e, tr)
           | (Inr refused, tr) \<Rightarrow> (Inr (), tr @ [Log_refusals refused])))"

section \<open>Debugging: printing the transaction\<close>

text \<open>
  \<open>splitlines()\<close>: the lines without their ends; carriage return followed by line feed
  is one line end, and no empty line is reported after the last line end.  The first
  argument says which single characters end a line, the second is the line read so far.
\<close>

fun splitlines :: "(char \<Rightarrow> bool) \<Rightarrow> string \<Rightarrow> string \<Rightarrow> string list" where
  "splitlines b cur [] = (if cur = [] then [] else [cur])"
| "splitlines b cur [x] = (if b x then [cur] else [cur @ [x]])"
| "splitlines b cur (x # y # ys) =
     (if x = CHR 0x0D \<and> y = CHR 0x0A then cur # splitlines b [] ys
      else if b x then cur # splitlines b [] (y # ys)
      else splitlines b (cur @ [x]) (y # ys))"

text \<open>
  The line ends of \<open>bytes.splitlines\<close> are line feed and carriage return; those of
  \<open>str.splitlines\<close> below 256 are these and the vertical tab, the form feed, the file,
  group and record separators and the next-line character.
\<close>

definition bytes_line_end :: "char \<Rightarrow> bool" where
  "bytes_line_end c = (c = CHR 0x0A \<or> c = CHR 0x0D)"

definition str_line_end :: "char \<Rightarrow> bool" where
  "str_line_end c = (c \<in> set [CHR 0x0A, CHR 0x0D, CHR 0x0B, CHR 0x0C,
                              CHR 0x1C, CHR 0x1D, CHR 0x1E, CHR 0x85])"

definition content_splitlines :: "content \<Rightarrow> string list" where
  "content_splitlines data =
     (case data of
        Str s \<Rightarrow> splitlines str_line_end [] s
      | Bytes b \<Rightarrow> splitlines bytes_line_end [] b)"

text \<open>
  The two standard streams, and what has been written to each: one entry for every call
  of \<open>print\<close>, holding the text printed (\<open>print\<close> adds the line end).
\<close>

datatype std_stream = Stdout | Stderr

record console =
  stdout :: "string list"
  stderr :: "string list"

fun written :: "std_stream \<Rightarrow> console \<Rightarrow> string list" where
  "written Stdout c = stdout c"
| "written Stderr c = stderr c"

fun py_print :: "std_stream \<Rightarrow> string \<Rightarrow> console \<Rightarrow> console" where
  "py_print Stdout text c = c\<lparr>stdout := stdout c @ [text]\<rparr>"
| "py_print Stderr text c = c\<lparr>stderr := stderr c @ [text]\<rparr>"

record debugging =
  stream :: std_stream

definition Debugging_init :: "std_stream option \<Rightarrow> debugging" where
  "Debugging_init st = \<lparr>stream = (case st of None \<Rightarrow> Stdout | Some f \<Rightarrow> f)\<rparr>"

definition Debugging_from_cli :: "string list \<Rightarrow> exn + debugging" where
  "Debugging_from_cli args =
     (let (error, st) =
            (if length args = 0 then (False, None)
             else if length args > 1 then (True, None)
             else if args ! 0 = ''stdout'' then (False, Some Stdout)
             else if args ! 0 = ''stderr'' then (False, Some Stderr)
             else (True, None))
      in if error then Inl (UsageError ''Debugging usage: [stdout|stderr]'')
         else Inr (Debugging_init st))"

text \<open>
  \<open>_format_peer\<close>; \<open>repr\<close> is Python's rendering of the peer.
\<close>

definition format_peer :: "(peer \<Rightarrow> string) \<Rightarrow> peer \<Rightarrow> string" where
  "format_peer repr p = ''X-Peer: '' @ repr p"

text \<open>
  The loop of \<open>_print_message_content\<close>, with the flag \<open>in_headers\<close>.  \<open>render\<close> is
  what is done to a line before it is printed: nothing for a \<open>str\<close> body,
  \<open>line.decode('utf-8', 'replace')\<close> for a \<open>bytes\<close> body.
\<close>

fun print_lines ::
  "std_stream \<Rightarrow> string \<Rightarrow> (string \<Rightarrow> string) \<Rightarrow> bool \<Rightarrow> string list \<Rightarrow> console \<Rightarrow> console" where
  "print_lines f peer_line render in_headers [] c = c"
| "print_lines f peer_line render in_headers (line # lines) c =
     (if in_headers \<and> line = []
      then print_lines f peer_line render False lines
             (py_print f (render line) (py_print f peer_line c))
      else print_lines f peer_line render in_headers lines
             (py_print f (render line) c))"

definition Debugging_print_message_content ::
  "(peer \<Rightarrow> string) \<Rightarrow> (string \<Rightarrow> string) \<Rightarrow> debugging \<Rightarrow> peer \<Rightarrow> content \<Rightarrow> console \<Rightarrow> console" where
  "Debugging_print_message_content repr decode self p data c =
     print_lines (stream self) (format_peer repr p)
       (case data of Str s \<Rightarrow> (\<lambda>line. line) | Bytes b \<Rightarrow> decode)
       True (content_splitlines data) c"

text \<open>
  The keyword arguments: \<open>mail_options\<close> and \<open>rcpt_options\<close>, each absent or present
  with the text that \<open>%s\<close> gives for it; other keywords print nothing.
\<close>

record kws =
  mail_options :: "string option"
  rcpt_options :: "string option"

definition print_kws :: "std_stream \<Rightarrow> kws \<Rightarrow> console \<Rightarrow> console" where
  "print_kws f kw c =
     (let c1 = (case mail_options kw of
                  None \<Rightarrow> c
                | Some m \<Rightarrow> py_print f (''mail options: '' @ m) c)
      in case rcpt_options kw of
           None \<Rightarrow> c1
         | Some r \<Rightarrow> py_print f (''rcpt options: '' @ r @ [CHR 0x0A]) c1)"

definition Debugging_process_message ::
  "(peer \<Rightarrow> string) \<Rightarrow> (string \<Rightarrow> string) \<Rightarrow> debugging \<Rightarrow> peer \<Rightarrow> string \<Rightarrow> string list \<Rightarrow>
     content \<Rightarrow> kws \<Rightarrow> console \<Rightarrow> console" where
  "Debugging_process_message repr decode self p mailfrom rcpttos data kw c =
     py_print (stream self) ''------------ END MESSAGE ------------''
       (Debugging_print_message_content repr decode self p data
          (print_kws (stream self) kw
             (py_print (stream self) ''---------- MESSAGE FOLLOWS ----------'' c)))"

section \<open>Message and AsyncMessage: the decoded message and its provenance headers\<close>

text \<open>
  Modelled from the spec: the structured message of the email library, whose class is
  not part of the repository.  It is header-addressable and multi-valued: setting a
  header adds the value as one more occurrence and replaces nothing.  The body content
  is kept as the decoder gave it.
\<close>

record 'b message =
  headers :: "(string \<times> string) list"
  payload :: 'b

definition setitem :: "string \<Rightarrow> string \<Rightarrow> 'b message \<Rightarrow> 'b message" where
  "setitem name val m = m\<lparr>headers := headers m @ [(name, val)]\<rparr>"

text \<open>
  The decoding step.  \<open>message_from_bytes\<close> and \<open>message_from_string\<close> are the two
  decoders of the email library, given the body and the handler's \<open>message_class\<close>.
\<close>

definition decode_data ::
  "(string \<Rightarrow> 'c \<Rightarrow> 'b message) \<Rightarrow> (string \<Rightarrow> 'c \<Rightarrow> 'b message) \<Rightarrow> 'c \<Rightarrow> pyobject \<Rightarrow>
     exn + 'b message" where
  "decode_data message_from_bytes message_from_string message_class data =
     (case data of
        Content (Bytes b) \<Rightarrow> Inr (message_from_bytes b message_class)
      | Content (Str s) \<Rightarrow> Inr (message_from_string s message_class)
      | NeitherStrNorBytes \<Rightarrow> Inl AssertionError)"

text \<open>The three assignments that follow; \<open>str_peer\<close> is Python's \<open>str(peer)\<close>.\<close>

definition set_provenance ::
  "(peer \<Rightarrow> string) \<Rightarrow> peer \<Rightarrow> string \<Rightarrow> string list \<Rightarrow> 'b message \<Rightarrow> 'b message" where
  "set_provenance str_peer p mailfrom rcpttos m =
     setitem ''X-RcptTos'' (py_join COMMASPACE rcpttos)
       (setitem ''X-MailFrom'' mailfrom
          (setitem ''X-Peer'' (str_peer p) m))"

text \<open>
  \<open>handle_message\<close> is the step of the subclass.  It acts on the state \<open>w\<close> of what it
  handles (a mailbox, say) and returns a value or raises.  \<open>process_message\<close> calls it as
  a statement: an exception of the step leaves \<open>process_message\<close>, the value it returns
  is dropped and \<open>process_message\<close> returns \<open>None\<close>.
\<close>

definition Message_process_message ::
  "(string \<Rightarrow> 'c \<Rightarrow> 'b message) \<Rightarrow> (string \<Rightarrow> 'c \<Rightarrow> 'b message) \<Rightarrow> (peer \<Rightarrow> string) \<Rightarrow>
     ('b message \<Rightarrow> 'w \<Rightarrow> (exn + 'r) \<times> 'w) \<Rightarrow> 'c \<Rightarrow> peer \<Rightarrow> string \<Rightarrow> string list \<Rightarrow>
     pyobject \<Rightarrow> 'w \<Rightarrow> (exn + unit) \<times> 'w" where
  "Message_process_message message_from_bytes message_from_string str_peer handle_message
       message_class p mailfrom rcpttos data w =
     (case decode_data message_from_bytes message_from_string message_class data of
        Inl e \<Rightarrow> (Inl e, w)
      | Inr m \<Rightarrow>
          (case handle_message (set_provenance str_peer p mailfrom rcpttos m) w of
             (Inl e, w') \<Rightarrow> (Inl e, w')
           | (Inr r, w') \<Rightarrow> (Inr (), w')))"

text \<open>
  \<open>AsyncMessage.process_message\<close>: the same steps, the step of the subclass being given
  the \<open>loop\<close>; \<open>yield from\<close> runs it to its end, and its value is dropped as well.
\<close>

definition AsyncMessage_process_message ::
  "(string \<Rightarrow> 'c \<Rightarrow> 'b message) \<Rightarrow> (string \<Rightarrow> 'c \<Rightarrow> 'b message) \<Rightarrow> (peer \<Rightarrow> string) \<Rightarrow>
     ('b message \<Rightarrow> 'l \<Rightarrow> 'w \<Rightarrow> (exn + 'r) \<times> 'w) \<Rightarrow> 'c \<Rightarrow> peer \<Rightarrow> string \<Rightarrow> string list \<Rightarrow>
     pyobject \<Rightarrow> 'l \<Rightarrow> 'w \<Rightarrow> (exn + unit) \<times> 'w" where
  "AsyncMessage_process_message message_from_bytes message_from_string str_peer handle_message
       message_class p mailfrom rcpttos data loop w =
     (case decode_data message_from_bytes message_from_string message_class data of
        Inl e \<Rightarrow> (Inl e, w)
      | Inr m \<Rightarrow>
          (case handle_message (set_provenance str_peer p mailfrom rcpttos m) loop w of
             (Inl e, w') \<Rightarrow> (Inl e, w')
           | (Inr r, w') \<Rightarrow> (Inr (), w')))"

section \<open>Example endpoints\<close>

text \<open>
  A relay target that refuses the connection, and one whose \<open>sendmail\<close> fails with a
  response carrying a code and a message.
\<close>

definition unreachable_endpoint :: smtp where
  "unreachable_endpoint =
     \<lparr>connect = (\<lambda>h n. Inl OSError), sendmail = (\<lambda>f r d. Inr []), quit = (\<lambda>r. Inr ())\<rparr>"

definition failing_endpoint :: smtp where
  "failing_endpoint =
     \<lparr>connect = (\<lambda>h n. Inr ()),
      sendmail = (\<lambda>f r d. Inl (SMTPException (Some 451) (Some ''try later''))),
      quit = (\<lambda>r. Inr ())\<rparr>"

text \<open>
  A relay target that accepts every recipient; \<open>sendmail\<close> encodes a \<open>str\<close> message as
  ASCII first and raises \<open>UnicodeEncodeError\<close> when a character is outside ASCII.
\<close>

definition ascii_endpoint :: smtp where
  "ascii_endpoint =
     \<lparr>connect = (\<lambda>h n. Inr ()),
      sendmail = (\<lambda>f r d. if list_all (\<lambda>c. of_char c < (128 :: nat)) d then Inr []
                           else Inl UnicodeEncodeError),
      quit = (\<lambda>r. Inr ())\<rparr>"


definition local_proxy :: proxy where
  "local_proxy = \<lparr>hostname = ''localhost'', remote_port = 25\<rparr>"

definition client :: peer where
  "client = \<lparr>host = ''192.0.2.1'', port = 4000\<rparr>"

text \<open>Python's \<open>repr\<close> of that peer, a tuple of a \<open>str\<close> and an \<open>int\<close>.\<close>

definition client_repr :: "peer \<Rightarrow> string" where
  "client_repr p = ''('' @ [CHR 0x27] @ ''192.0.2.1'' @ [CHR 0x27] @ '', 4000)''"

text \<open>\<open>line.decode('utf-8', 'replace')\<close> on a line of ASCII bytes: the same characters.\<close>

definition decode_ascii :: "string \<Rightarrow> string" where
  "decode_ascii line = line"

text \<open>
  A step of a subclass that keeps the message, as \<open>Mailbox.handle_message\<close> adds it to
  its mailbox, and returns a value.
\<close>

definition keep_message :: "'b message \<Rightarrow> 'b message list \<Rightarrow> (exn + string) \<times> 'b message list" where
  "keep_message m box = (Inr ''handled'', box @ [m])"

section \<open>Facts about the helpers\<close>

lemma py_split_not_Nil: "py_split c s \<noteq> []"
  by (induction s) (auto split: list.splits)

lemma last_header_index_blank:
  "[] \<in> set ls \<Longrightarrow>
     \<exists>pre post. ls = pre @ [] # post \<and> [] \<notin> set pre \<and> last_header_index ls = length pre"
proof (induction ls)
  case Nil
  then show ?case by simp
next
  case (Cons l ls)
  show ?case
  proof (cases "l = []")
    case True
    then have "l # ls = [] @ [] # ls \<and> [] \<notin> set ([] :: string list)
        \<and> last_header_index (l # ls) = length ([] :: string list)"
      by simp
    then show ?thesis by blast
  next
    case False
    with Cons.prems have "[] \<in> set ls" by auto
    from Cons.IH [OF this] obtain pre post where
      h: "ls = pre @ [] # post" "[] \<notin> set pre" "last_header_index ls = length pre"
      by blast
    from h False have "l # ls = (l # pre) @ [] # post \<and> [] \<notin> set (l # pre)
        \<and> last_header_index (l # ls) = length (l # pre)"
      by auto
    then show ?thesis by blast
  qed
qed

lemma last_header_index_no_blank:
  "[] \<notin> set ls \<Longrightarrow> last_header_index ls = length ls"
  by (induction ls) auto

lemma py_split_no_sep: "c \<notin> set l \<Longrightarrow> py_split c l = [l]"
  by (induction l) auto

lemma py_split_line: "c \<notin> set l \<Longrightarrow> py_split c (l @ c # rest) = l # py_split c rest"
  by (induction l) auto

lemma py_split_crlf:
  assumes "\<forall>l \<in> set ls. CHR 0x0A \<notin> set l" and "CHR 0x0A \<notin> set t"
  shows "py_split (CHR 0x0A) (concat (map (\<lambda>l. l @ [CHR 0x0D, CHR 0x0A]) ls) @ t)
           = map (\<lambda>l. l @ [CHR 0x0D]) ls @ [t]"
  using assms
proof (induction ls)
  case Nil
  then show ?case by (simp add: py_split_no_sep)
next
  case (Cons l ls)
  have "CHR 0x0A \<notin> set (l @ [CHR 0x0D])"
    using Cons.prems by simp
  from py_split_line [OF this]
  have "py_split (CHR 0x0A)
          ((l @ [CHR 0x0D]) @ CHR 0x0A # (concat (map (\<lambda>l. l @ [CHR 0x0D, CHR 0x0A]) ls) @ t))
        = (l @ [CHR 0x0D]) #
          py_split (CHR 0x0A) (concat (map (\<lambda>l. l @ [CHR 0x0D, CHR 0x0A]) ls) @ t)" .
  with Cons show ?case by simp
qed

lemma py_join_snoc: "py_join sep (xs @ [y]) = concat (map (\<lambda>x. x @ sep) xs) @ y"
  by (induction sep xs rule: py_join.induct) auto

lemma last_header_index_append:
  "[] \<notin> set pre \<Longrightarrow> last_header_index (pre @ post) = length pre + last_header_index post"
  by (induction pre) auto

lemma py_join_concat: "py_join sep (x # xs) = x @ concat (map (\<lambda>y. sep @ y) xs)"
  by (induction sep "x # xs" arbitrary: x xs rule: py_join.induct) auto

lemma py_split_single_empty: "py_split c s = [[]] \<longleftrightarrow> s = []"
  using py_split_not_Nil [of c "tl s"] by (cases s) (auto split: list.splits)

lemma py_join_split: "py_join [c] (py_split c s) = s"
proof (induction s)
  case Nil
  show ?case by simp
next
  case (Cons x s)
  obtain l ls where ls: "py_split c s = l # ls"
    using py_split_not_Nil [of c s] by (cases "py_split c s") auto
  with Cons show ?case
    by (cases ls) (auto simp: py_join_concat)
qed

lemma last_py_split: "last (py_split c s) = [] \<longleftrightarrow> s = [] \<or> last s = c"
proof (induction s)
  case Nil
  show ?case by simp
next
  case (Cons x s)
  obtain l ls where ls: "py_split c s = l # ls"
    using py_split_not_Nil [of c s] by (cases "py_split c s") auto
  with Cons show ?case
    by (cases ls) (auto split: if_splits simp: py_split_single_empty)
qed

text \<open>
  When \<open>splitlines\<close> reports no empty line, the pieces between line feeds are not empty
  either, but for the piece after the last line feed.
\<close>

lemma splitlines_py_split:
  "[] \<notin> set (splitlines b cur s) \<Longrightarrow> b (CHR 0x0A) \<Longrightarrow>
     (cur = [] \<longrightarrow> [] \<notin> set (butlast (py_split (CHR 0x0A) s))) \<and>
     [] \<notin> set (tl (butlast (py_split (CHR 0x0A) s)))"
proof (induction b cur s rule: splitlines.induct)
  case (1 b cur)
  then show ?case by simp
next
  case (2 b cur x)
  then show ?case by (auto split: if_splits)
next
  case (3 b cur x y ys)
  obtain l' ls' where ls': "py_split (CHR 0x0A) (y # ys) = l' # ls'"
    using py_split_not_Nil [of "CHR 0x0A" "y # ys"] by (cases "py_split (CHR 0x0A) (y # ys)") auto
  show ?case
  proof (cases "x = CHR 0x0D \<and> y = CHR 0x0A")
    case True
    with "3.prems" have c: "cur \<noteq> []" and n: "[] \<notin> set (splitlines b [] ys)"
      by auto
    from "3.IH"(1) [OF True n "3.prems"(2)]
    have ih: "[] \<notin> set (butlast (py_split (CHR 0x0A) ys))" by simp
    have "py_split (CHR 0x0A) (x # y # ys) = [CHR 0x0D] # py_split (CHR 0x0A) ys"
      using True by simp
    with ih c py_split_not_Nil [of "CHR 0x0A" ys] show ?thesis by simp
  next
    case False
    show ?thesis
    proof (cases "b x")
      case True
      with False "3.prems" have c: "cur \<noteq> []"
        and n: "[] \<notin> set (splitlines b [] (y # ys))"
        by auto
      from "3.IH"(2) [OF False True n "3.prems"(2)]
      have ih: "[] \<notin> set (butlast (l' # ls'))" using ls' by simp
      have "py_split (CHR 0x0A) (x # y # ys)
          = (if x = CHR 0x0A then [] # l' # ls' else (x # l') # ls')"
        using ls' by simp
      with ih c show ?thesis by (auto split: if_splits)
    next
      case nb: False
      with "3.prems"(2) have x: "x \<noteq> CHR 0x0A" by auto
      from False nb "3.prems" have n: "[] \<notin> set (splitlines b (cur @ [x]) (y # ys))"
        by auto
      from "3.IH"(3) [OF False nb n "3.prems"(2)]
      have ih: "[] \<notin> set (tl (butlast (l' # ls')))" using ls' by simp
      have "py_split (CHR 0x0A) (x # y # ys) = (x # l') # ls'"
        using ls' x by simp
      with ih show ?thesis by (auto split: if_splits)
    qed
  qed
qed

section \<open>Facts about the line put in by Proxy\<close>

lemma Proxy_data_Str:
  "Proxy_data p (Str body)
     = Inr (py_join [CHR 0x0A]
         (py_insert (last_header_index (py_split (CHR 0x0A) body)) (''X-Peer: '' @ host p)
            (py_split (CHR 0x0A) body)))"
  by (simp add: Proxy_data_def Proxy_lines_def x_peer_line_def NEWLINE_def Let_def)

lemma Proxy_data_after_body:
  assumes "[] \<notin> set (splitlines b [] s)" and "b (CHR 0x0A)"
  shows "Proxy_data p (Str s)
           = Inr (if s = [] \<or> last s = CHR 0x0A
                  then s @ ''X-Peer: '' @ host p @ [CHR 0x0A]
                  else s @ [CHR 0x0A] @ ''X-Peer: '' @ host p)"
proof -
  let ?ps = "py_split (CHR 0x0A) s"
  let ?pre = "butlast ?ps"
  let ?t = "last ?ps"
  let ?x = "''X-Peer: '' @ host p"
  have ps: "?ps = ?pre @ [?t]"
    using py_split_not_Nil [of "CHR 0x0A" s] by simp
  have pre: "[] \<notin> set ?pre"
    using splitlines_py_split [OF assms] by simp
  have t: "?t = [] \<longleftrightarrow> s = [] \<or> last s = CHR 0x0A"
    by (rule last_py_split)
  have s: "s = concat (map (\<lambda>x. x @ [CHR 0x0A]) ?pre) @ ?t"
    using py_join_split [of "CHR 0x0A" s] py_join_snoc [of "[CHR 0x0A]" ?pre ?t] ps by simp
  have idx: "last_header_index ?ps = length ?pre + (if ?t = [] then 0 else 1)"
    using last_header_index_append [OF pre, of "[?t]"] ps by simp
  have lines: "Proxy_lines p (Str s) = Inr (?pre @ (if ?t = [] then [?x, []] else [?t, ?x]))"
  proof -
    have "py_insert (last_header_index ?ps) ?x ?ps
        = py_insert (length ?pre + (if ?t = [] then 0 else 1)) ?x (?pre @ [?t])"
      using idx ps by simp
    also have "\<dots> = ?pre @ (if ?t = [] then [?x, []] else [?t, ?x])"
      by (simp add: py_insert_def)
    finally show ?thesis
      by (simp add: Proxy_lines_def x_peer_line_def Let_def)
  qed
  show ?thesis
  proof (cases "?t = []")
    case True
    have "py_join [CHR 0x0A] ((?pre @ [?x]) @ [[]])
        = concat (map (\<lambda>x. x @ [CHR 0x0A]) (?pre @ [?x])) @ []"
      by (rule py_join_snoc)
    with True lines s t show ?thesis
      by (simp add: Proxy_data_def NEWLINE_def)
  next
    case False
    have "py_join [CHR 0x0A] ((?pre @ [?t]) @ [?x])
        = concat (map (\<lambda>x. x @ [CHR 0x0A]) (?pre @ [?t])) @ ?x"
      by (rule py_join_snoc)
    with False lines s t show ?thesis
      by (simp add: Proxy_data_def NEWLINE_def)
  qed
qed

section \<open>Facts about delivery\<close>


lemma Proxy_session_connect_failed:
  "connect s (hostname self) (remote_port self) = Inl e \<Longrightarrow>
     Proxy_session s self mailfrom rcpttos data
       = (Some e, [], [Connect (hostname self) (remote_port self)])"
  by (simp add: Proxy_session_def)

lemma Proxy_session_connected:
  "connect s (hostname self) (remote_port self) = Inr u \<Longrightarrow>
     \<exists>err refused. Proxy_session s self mailfrom rcpttos data
       = (err, refused, [Connect (hostname self) (remote_port self),
                         Sendmail mailfrom rcpttos data, Quit])"
  by (simp add: Proxy_session_def Let_def split: sum.splits)

lemma Proxy_session_calls:
  "Proxy_session s self mailfrom rcpttos data = (err, refused, tr) \<Longrightarrow>
     tr = [Connect (hostname self) (remote_port self)] \<or>
     tr = [Connect (hostname self) (remote_port self), Sendmail mailfrom rcpttos data, Quit]"
  by (auto simp: Proxy_session_def Let_def split: sum.splits)

lemma Proxy_session_raised:
  "Proxy_session s self mailfrom rcpttos data = (Some e, refused, tr) \<Longrightarrow>
     connect s (hostname self) (remote_port self) = Inl e \<or>
     sendmail s mailfrom rcpttos data = Inl e \<or>
     quit s (sendmail s mailfrom rcpttos data) = Inl e"
  by (auto simp: Proxy_session_def Let_def split: sum.splits)

lemma Proxy_deliver_trace:
  "Proxy_session s self mailfrom rcpttos data = (err, refused, tr) \<Longrightarrow>
     \<exists>logs. snd (Proxy_deliver s self mailfrom rcpttos data) = tr @ logs \<and>
            filter is_call logs = []"
  by (auto simp: Proxy_deliver_def split: option.splits exn.splits)

lemma Proxy_process_message_sends:
  assumes "Proxy_data p data = Inr text"
    and "connect s (hostname self) (remote_port self) = Inr ()"
  shows "Sendmail mailfrom rcpttos text
           \<in> set (snd (Proxy_process_message s self p mailfrom rcpttos data))"
proof -
  from Proxy_session_connected [OF assms(2)] obtain err refused where
    "Proxy_session s self mailfrom rcpttos text
       = (err, refused, [Connect (hostname self) (remote_port self),
                         Sendmail mailfrom rcpttos text, Quit])"
    by blast
  from Proxy_deliver_trace [OF this] obtain logs where
    d: "snd (Proxy_deliver s self mailfrom rcpttos text)
       = [Connect (hostname self) (remote_port self),
          Sendmail mailfrom rcpttos text, Quit] @ logs"
    by blast
  have "\<exists>logs'. snd (Proxy_process_message s self p mailfrom rcpttos data)
      = snd (Proxy_deliver s self mailfrom rcpttos text) @ logs'"
    using assms(1)
    by (auto simp: Proxy_process_message_def split: prod.splits sum.splits)
  with d show ?thesis by auto
qed

section \<open>Facts about the decoded message\<close>

text \<open>
  The three assignments lose nothing: two decoded messages are the same after them
  exactly when they were the same before.  So the text path and the bytes path of
  \<open>process_message\<close> hand on the same message exactly when the two decoders of the
  email library give the same message.
\<close>

lemma set_provenance_inject:
  "set_provenance str_peer p mailfrom rcpttos m = set_provenance str_peer p mailfrom rcpttos m'
     \<longleftrightarrow> m = (m' :: 'b message)"
  by (cases m; cases m') (auto simp: set_provenance_def setitem_def)

lemma COMMASPACE_join:
  "py_join COMMASPACE rcpttos
     = (case rcpttos of [] \<Rightarrow> [] | r # rs \<Rightarrow> r @ concat (map (\<lambda>x. '', '' @ x) rs))"
  by (cases rcpttos) (simp_all only: COMMASPACE_def py_join_concat py_join.simps list.case)

lemma set_provenance_explicit:
  "set_provenance str_peer p mailfrom rcpttos m
     = m\<lparr>headers := headers m @
          [(''X-Peer'', str_peer p), (''X-MailFrom'', mailfrom),
           (''X-RcptTos'', (case rcpttos of [] \<Rightarrow> []
                            | r # rs \<Rightarrow> r @ concat (map (\<lambda>x. '', '' @ x) rs)))]\<rparr>"
  by (simp add: set_provenance_def setitem_def COMMASPACE_join)

lemma set_provenance_example:
  "set_provenance str_peer p ''a@example.com'' [''b@example.com'', ''c@example.com''] m
     = m\<lparr>headers := headers m @
          [(''X-Peer'', str_peer p), (''X-MailFrom'', ''a@example.com''),
           (''X-RcptTos'', ''b@example.com, c@example.com'')]\<rparr>"
  by (simp add: set_provenance_def setitem_def COMMASPACE_def)

section \<open>Facts about printing\<close>

lemma written_py_print_same: "written f (py_print f text c) = written f c @ [text]"
  by (cases f) simp_all

lemma written_py_print_other: "g \<noteq> f \<Longrightarrow> written g (py_print f text c) = written g c"
  by (cases f; cases g) simp_all

lemma print_lines_no_blank:
  "[] \<notin> set ls \<Longrightarrow>
     written f (print_lines f peer_line render h ls c) = written f c @ map render ls"
  by (induction ls arbitrary: c) (auto simp: written_py_print_same)

lemma print_lines_after_headers:
  "written f (print_lines f peer_line render False ls c) = written f c @ map render ls"
  by (induction ls arbitrary: c) (auto simp: written_py_print_same)

lemma print_lines_blank:
  "[] \<in> set ls \<Longrightarrow>
     written f (print_lines f peer_line render True ls c)
       = written f c @ map render (takeWhile (\<lambda>l. l \<noteq> []) ls) @ [peer_line] @
         map render (dropWhile (\<lambda>l. l \<noteq> []) ls)"
  by (induction ls arbitrary: c)
    (auto simp: written_py_print_same print_lines_after_headers)

lemma print_lines_same:
  "\<exists>ws. written f (print_lines f peer_line render h ls c) = written f c @ ws"
proof (induction ls arbitrary: c h)
  case Nil
  show ?case by simp
next
  case (Cons l ls)
  show ?case
  proof (cases "h \<and> l = []")
    case True
    from Cons [of False "py_print f (render l) (py_print f peer_line c)"]
    obtain ws where "written f (print_lines f peer_line render False ls
        (py_print f (render l) (py_print f peer_line c)))
        = written f (py_print f (render l) (py_print f peer_line c)) @ ws"
      by blast
    with True show ?thesis by (simp add: written_py_print_same)
  next
    case False
    from Cons [of h "py_print f (render l) c"]
    obtain ws where "written f (print_lines f peer_line render h ls (py_print f (render l) c))
        = written f (py_print f (render l) c) @ ws"
      by blast
    with False show ?thesis by (auto simp: written_py_print_same)
  qed
qed

lemma print_lines_other:
  "g \<noteq> f \<Longrightarrow> written g (print_lines f peer_line render h ls c) = written g c"
  by (induction ls arbitrary: c h) (auto simp: written_py_print_other)

lemma print_kws_same:
  "written f (print_kws f kw c) = written f c @
     (case mail_options kw of None \<Rightarrow> [] | Some m \<Rightarrow> [''mail options: '' @ m]) @
     (case rcpt_options kw of None \<Rightarrow> [] | Some r \<Rightarrow> [''rcpt options: '' @ r @ [CHR 0x0A]])"
  by (simp add: print_kws_def written_py_print_same Let_def split: option.splits)

lemma print_kws_other: "g \<noteq> f \<Longrightarrow> written g (print_kws f kw c) = written g c"
  by (simp add: print_kws_def written_py_print_other Let_def split: option.splits)

lemma Debugging_process_message_same:
  "\<exists>ws. written (stream self)
          (Debugging_process_message repr decode self p mailfrom rcpttos data kw c)
        = written (stream self) c @ ''---------- MESSAGE FOLLOWS ----------'' # ws"
proof -
  let ?f = "stream self"
  let ?c1 = "py_print ?f ''---------- MESSAGE FOLLOWS ----------'' c"
  let ?c2 = "print_kws ?f kw ?c1"
  let ?render = "case data of Str s \<Rightarrow> (\<lambda>line. line) | Bytes b \<Rightarrow> decode"
  obtain ws where "written ?f (print_lines ?f (format_peer repr p) ?render True
      (content_splitlines data) ?c2) = written ?f ?c2 @ ws"
    using print_lines_same by blast
  then have "written ?f (Debugging_process_message repr decode self p mailfrom rcpttos data kw c)
      = written ?f c @ ''---------- MESSAGE FOLLOWS ----------'' #
          ((case mail_options kw of None \<Rightarrow> [] | Some m \<Rightarrow> [''mail options: '' @ m]) @
           (case rcpt_options kw of None \<Rightarrow> []
            | Some r \<Rightarrow> [''rcpt options: '' @ r @ [CHR 0x0A]]) @
           ws @ [''------------ END MESSAGE ------------''])"
    by (simp add: Debugging_process_message_def Debugging_print_message_content_def
        written_py_print_same print_kws_same)
  then show ?thesis by blast
qed

lemma Debugging_process_message_other:
  "g \<noteq> stream self \<Longrightarrow>
     written g (Debugging_process_message repr decode self p mailfrom rcpttos data kw c)
       = written g c"
  by (simp add: Debugging_process_message_def Debugging_print_message_content_def
      written_py_print_other print_kws_other print_lines_other)


section \<open>Claims\<close>

text \<open>
  C1, as amended.  For a \<open>str\<close> body, the lines being the pieces of
  \<open>data.split('\n')\<close>: when a piece is empty, the lines handed on are the original ones
  with exactly one line \<open>X-Peer: <peer host>\<close> put in, immediately before the first
  empty piece; every piece before it is non-empty and every original line keeps its
  place and order.  When no piece is empty, the \<open>X-Peer:\<close> line is added after the last
  line.  In both cases the body is these lines joined by the newline separator, and
  this is the text given to \<open>sendmail\<close> once the connection to the relay target stands.
\<close>

theorem Proxy_x_peer_placement:
  "([] \<in> set (py_split (CHR 0x0A) body) \<longrightarrow>
      (\<exists>pre post. py_split (CHR 0x0A) body = pre @ [] # post \<and> [] \<notin> set pre \<and>
          Proxy_lines p (Str body) = Inr (pre @ (''X-Peer: '' @ host p) # [] # post))) \<and>
   ([] \<notin> set (py_split (CHR 0x0A) body) \<longrightarrow>
      Proxy_lines p (Str body) = Inr (py_split (CHR 0x0A) body @ [''X-Peer: '' @ host p])) \<and>
   (\<exists>lines. Proxy_lines p (Str body) = Inr lines \<and>
      Proxy_data p (Str body) = Inr (py_join [CHR 0x0A] lines) \<and>
      (connect s (hostname self) (remote_port self) = Inr () \<longrightarrow>
         Sendmail mailfrom rcpttos (py_join [CHR 0x0A] lines)
           \<in> set (snd (Proxy_process_message s self p mailfrom rcpttos (Str body)))))"
proof (intro conjI impI)
  assume "[] \<in> set (py_split (CHR 0x0A) body)"
  from last_header_index_blank [OF this] obtain pre post where
    h: "py_split (CHR 0x0A) body = pre @ [] # post" "[] \<notin> set pre"
       "last_header_index (py_split (CHR 0x0A) body) = length pre"
    by blast
  then have "Proxy_lines p (Str body) = Inr (pre @ (''X-Peer: '' @ host p) # [] # post)"
    by (simp add: Proxy_lines_def py_insert_def x_peer_line_def Let_def)
  with h show "\<exists>pre post. py_split (CHR 0x0A) body = pre @ [] # post \<and> [] \<notin> set pre \<and>
      Proxy_lines p (Str body) = Inr (pre @ (''X-Peer: '' @ host p) # [] # post)"
    by blast
next
  assume "[] \<notin> set (py_split (CHR 0x0A) body)"
  then show "Proxy_lines p (Str body)
      = Inr (py_split (CHR 0x0A) body @ [''X-Peer: '' @ host p])"
    by (simp add: Proxy_lines_def py_insert_def x_peer_line_def Let_def
        last_header_index_no_blank)
next
  let ?lines = "py_insert (last_header_index (py_split (CHR 0x0A) body))
      (''X-Peer: '' @ host p) (py_split (CHR 0x0A) body)"
  have l: "Proxy_lines p (Str body) = Inr ?lines"
    by (simp add: Proxy_lines_def x_peer_line_def Let_def)
  have d: "Proxy_data p (Str body) = Inr (py_join [CHR 0x0A] ?lines)"
    by (rule Proxy_data_Str)
  have "connect s (hostname self) (remote_port self) = Inr () \<longrightarrow>
      Sendmail mailfrom rcpttos (py_join [CHR 0x0A] ?lines)
        \<in> set (snd (Proxy_process_message s self p mailfrom rcpttos (Str body)))"
    using Proxy_process_message_sends [OF d] by blast
  with l d show "\<exists>lines. Proxy_lines p (Str body) = Inr lines \<and>
      Proxy_data p (Str body) = Inr (py_join [CHR 0x0A] lines) \<and>
      (connect s (hostname self) (remote_port self) = Inr () \<longrightarrow>
         Sendmail mailfrom rcpttos (py_join [CHR 0x0A] lines)
           \<in> set (snd (Proxy_process_message s self p mailfrom rcpttos (Str body))))"
    by blast
qed

theorem Proxy_x_peer_placement_witness:
  "[] \<in> set (py_split (CHR 0x0A) (''a: b'' @ [CHR 0x0A, CHR 0x0A] @ ''text'')) \<and>
   Proxy_lines client (Str (''a: b'' @ [CHR 0x0A, CHR 0x0A] @ ''text''))
     = Inr [''a: b'', ''X-Peer: 192.0.2.1'', [], ''text''] \<and>
   [] \<notin> set (py_split (CHR 0x0A) ''a: b'') \<and>
   Proxy_lines client (Str ''a: b'') = Inr [''a: b'', ''X-Peer: 192.0.2.1''] \<and>
   Proxy_data client (Str ''a: b'') = Inr (''a: b'' @ [CHR 0x0A] @ ''X-Peer: 192.0.2.1'') \<and>
   connect failing_endpoint (hostname local_proxy) (remote_port local_proxy) = Inr () \<and>
   Sendmail ''a@example.com'' [''b@example.com''] (''a: b'' @ [CHR 0x0A] @ ''X-Peer: 192.0.2.1'')
     \<in> set (snd (Proxy_process_message failing_endpoint local_proxy client
                   ''a@example.com'' [''b@example.com''] (Str ''a: b'')))"
proof -
  have conn: "connect failing_endpoint (hostname local_proxy) (remote_port local_proxy) = Inr ()"
    by (simp add: failing_endpoint_def)
  have blank: "[] \<in> set (py_split (CHR 0x0A) (''a: b'' @ [CHR 0x0A, CHR 0x0A] @ ''text''))"
    by simp
  have none: "[] \<notin> set (py_split (CHR 0x0A) ''a: b'')"
    by simp
  have hc: "host client = ''192.0.2.1''"
    by (simp add: client_def)
  from Proxy_x_peer_placement [where body = "''a: b'' @ [CHR 0x0A, CHR 0x0A] @ ''text''"
      and p = client] blank
  obtain pre post where
    h: "py_split (CHR 0x0A) (''a: b'' @ [CHR 0x0A, CHR 0x0A] @ ''text'') = pre @ [] # post"
       "[] \<notin> set pre"
       "Proxy_lines client (Str (''a: b'' @ [CHR 0x0A, CHR 0x0A] @ ''text''))
          = Inr (pre @ (''X-Peer: '' @ host client) # [] # post)"
    by blast
  have "[''a: b'', [], ''text''] = pre @ [] # post"
    using h(1) by simp
  with h(2) have "pre = [''a: b''] \<and> post = [''text'']"
    by (cases pre; cases "tl pre") auto
  with h(3) hc have first:
    "Proxy_lines client (Str (''a: b'' @ [CHR 0x0A, CHR 0x0A] @ ''text''))
       = Inr [''a: b'', ''X-Peer: 192.0.2.1'', [], ''text'']"
    by simp
  from Proxy_x_peer_placement [where body = "''a: b''"
      and p = client and s = failing_endpoint and self = local_proxy
      and mailfrom = "''a@example.com''" and rcpttos = "[''b@example.com'']"] none conn
  obtain lines where
    second0: "Proxy_lines client (Str ''a: b'')
                = Inr (py_split (CHR 0x0A) ''a: b'' @ [''X-Peer: '' @ host client])"
    and l: "Proxy_lines client (Str ''a: b'') = Inr lines"
    and third: "Proxy_data client (Str ''a: b'') = Inr (py_join [CHR 0x0A] lines)"
    and fourth: "Sendmail ''a@example.com'' [''b@example.com''] (py_join [CHR 0x0A] lines)
      \<in> set (snd (Proxy_process_message failing_endpoint local_proxy client
                    ''a@example.com'' [''b@example.com''] (Str ''a: b'')))"
    by blast
  from second0 hc have second:
    "Proxy_lines client (Str ''a: b'') = Inr [''a: b'', ''X-Peer: 192.0.2.1'']"
    by simp
  with l have lines: "lines = [''a: b'', ''X-Peer: 192.0.2.1'']"
    by simp
  from third lines have data: "Proxy_data client (Str ''a: b'')
      = Inr (''a: b'' @ [CHR 0x0A] @ ''X-Peer: 192.0.2.1'')"
    by simp
  from fourth lines have sent: "Sendmail ''a@example.com'' [''b@example.com'']
        (''a: b'' @ [CHR 0x0A] @ ''X-Peer: 192.0.2.1'')
      \<in> set (snd (Proxy_process_message failing_endpoint local_proxy client
                    ''a@example.com'' [''b@example.com''] (Str ''a: b'')))"
    by simp
  from blank none first second data conn sent show ?thesis by blast
qed

text \<open>
  C1, as stated, fails.  The body \<open>a: b\r\n\r\ntext\<close> has a blank line, the one that
  \<open>splitlines\<close> reports and \<open>Debugging\<close> prints its peer line at, but the line of
  \<open>Proxy\<close> is not put before it: cut at line feeds, that line holds a carriage return,
  so the \<open>X-Peer:\<close> line comes last.  And a \<open>bytes\<close> body with a blank line gets no
  line at all: \<open>process_message\<close> raises \<open>TypeError\<close> and nothing is delivered.
\<close>

theorem Proxy_x_peer_misses_blank_line:
  "content_splitlines (Str (''a: b'' @ [CHR 0x0D, CHR 0x0A, CHR 0x0D, CHR 0x0A] @ ''text''))
     = [''a: b'', [], ''text''] \<and>
   Proxy_lines client (Str (''a: b'' @ [CHR 0x0D, CHR 0x0A, CHR 0x0D, CHR 0x0A] @ ''text''))
     = Inr [''a: b'' @ [CHR 0x0D], [CHR 0x0D], ''text'', ''X-Peer: 192.0.2.1''] \<and>
   content_splitlines (Bytes (''a: b'' @ [CHR 0x0A, CHR 0x0A] @ ''text''))
     = [''a: b'', [], ''text''] \<and>
   Proxy_process_message ascii_endpoint local_proxy client ''a@example.com'' [''b@example.com'']
       (Bytes (''a: b'' @ [CHR 0x0A, CHR 0x0A] @ ''text''))
     = (Inl TypeError, [])"
  by (simp add: content_splitlines_def str_line_end_def bytes_line_end_def Proxy_lines_def
      Proxy_data_def Proxy_process_message_def py_insert_def x_peer_line_def client_def Let_def)

text \<open>
  C9, as amended.  Take a \<open>str\<close> body made of lines that each end in carriage return
  and line feed, followed by a last piece \<open>t\<close> without line feed (empty when the body
  ends with a line end).  Cutting at the line feed leaves the carriage return on every
  line, so none of these lines is taken for the blank line, the separator between
  headers and text included: the scan passes all of them.  The \<open>X-Peer:\<close> line
  therefore comes after every line of the body and not at the boundary of the headers,
  and it is joined to the body with a bare line feed: the text delivered is the body,
  then \<open>X-Peer: <host>\<close> and a line feed when the body ends with a line end, and the
  body, a line feed and \<open>X-Peer: <host>\<close> when it does not.
\<close>

theorem Proxy_crlf_body:
  assumes "\<forall>l \<in> set ls. CHR 0x0A \<notin> set l" and "CHR 0x0A \<notin> set t"
  shows "py_split (CHR 0x0A) (concat (map (\<lambda>l. l @ [CHR 0x0D, CHR 0x0A]) ls) @ t)
           = map (\<lambda>l. l @ [CHR 0x0D]) ls @ [t] \<and>
         length ls \<le> last_header_index
           (py_split (CHR 0x0A) (concat (map (\<lambda>l. l @ [CHR 0x0D, CHR 0x0A]) ls) @ t)) \<and>
         Proxy_lines p (Str (concat (map (\<lambda>l. l @ [CHR 0x0D, CHR 0x0A]) ls) @ t))
           = Inr (map (\<lambda>l. l @ [CHR 0x0D]) ls @
               (if t = [] then [''X-Peer: '' @ host p, []] else [t, ''X-Peer: '' @ host p])) \<and>
         Proxy_data p (Str (concat (map (\<lambda>l. l @ [CHR 0x0D, CHR 0x0A]) ls) @ t))
           = Inr (concat (map (\<lambda>l. l @ [CHR 0x0D, CHR 0x0A]) ls) @
               (if t = [] then ''X-Peer: '' @ host p @ [CHR 0x0A]
                else t @ [CHR 0x0A] @ ''X-Peer: '' @ host p))"
proof -
  let ?body = "concat (map (\<lambda>l. l @ [CHR 0x0D, CHR 0x0A]) ls) @ t"
  let ?pre = "map (\<lambda>l. l @ [CHR 0x0D]) ls"
  let ?x = "''X-Peer: '' @ host p"
  have split: "py_split (CHR 0x0A) ?body = ?pre @ [t]"
    using assms by (rule py_split_crlf)
  have pre: "[] \<notin> set ?pre" by auto
  have idx: "last_header_index (?pre @ [t]) = length ls + (if t = [] then 0 else 1)"
    using last_header_index_append [OF pre, of "[t]"] by simp
  have lines: "Proxy_lines p (Str ?body) = Inr (?pre @ (if t = [] then [?x, []] else [t, ?x]))"
    using idx by (simp add: Proxy_lines_def split py_insert_def x_peer_line_def Let_def)
  have cat: "concat (map (\<lambda>x. x @ [CHR 0x0A]) ?pre)
      = concat (map (\<lambda>l. l @ [CHR 0x0D, CHR 0x0A]) ls)"
    by (induction ls) auto
  have data: "Proxy_data p (Str ?body) = Inr (concat (map (\<lambda>l. l @ [CHR 0x0D, CHR 0x0A]) ls) @
      (if t = [] then ?x @ [CHR 0x0A] else t @ [CHR 0x0A] @ ?x))"
  proof (cases "t = []")
    case True
    have "py_join [CHR 0x0A] ((?pre @ [?x]) @ [[]])
        = concat (map (\<lambda>x. x @ [CHR 0x0A]) (?pre @ [?x])) @ []"
      by (rule py_join_snoc)
    with True lines cat show ?thesis
      by (simp add: Proxy_data_def NEWLINE_def)
  next
    case False
    have "py_join [CHR 0x0A] ((?pre @ [t]) @ [?x])
        = concat (map (\<lambda>x. x @ [CHR 0x0A]) (?pre @ [t])) @ ?x"
      by (rule py_join_snoc)
    with False lines cat show ?thesis
      by (simp add: Proxy_data_def NEWLINE_def)
  qed
  from split idx lines data show ?thesis by simp
qed

theorem Proxy_crlf_body_witness:
  "CHR 0x0A \<notin> set (concat [''a: b'', [], ''text'']) \<and> CHR 0x0A \<notin> set ([] :: string) \<and>
   Proxy_data client
     (Str (concat (map (\<lambda>l. l @ [CHR 0x0D, CHR 0x0A]) [''a: b'', [], ''text'']) @ []))
     = Inr (''a: b'' @ [CHR 0x0D, CHR 0x0A, CHR 0x0D, CHR 0x0A] @ ''text'' @ [CHR 0x0D, CHR 0x0A] @
         ''X-Peer: 192.0.2.1'' @ [CHR 0x0A])"
proof -
  have h0: "CHR 0x0A \<notin> set (concat [''a: b'', [], ''text''])" by simp
  then have h1: "\<forall>l \<in> set [''a: b'', [], ''text'']. CHR 0x0A \<notin> set l" by simp
  have h2: "CHR 0x0A \<notin> set ([] :: string)" by simp
  from Proxy_crlf_body [OF h1 h2, of client] h0 h2
  show ?thesis by (simp add: client_def)
qed

text \<open>
  C9, as stated, fails for a \<open>bytes\<close> body whose lines end in carriage return and line
  feed: no line is added and nothing is delivered, \<open>process_message\<close> raises
  \<open>TypeError\<close> when it cuts the body.
\<close>

theorem Proxy_crlf_bytes_body_raises:
  "Proxy_data client (Bytes (''a: b'' @ [CHR 0x0D, CHR 0x0A, CHR 0x0D, CHR 0x0A] @ ''text'' @
       [CHR 0x0D, CHR 0x0A]))
     = Inl TypeError \<and>
   Proxy_process_message ascii_endpoint local_proxy client ''a@example.com'' [''b@example.com'']
       (Bytes (''a: b'' @ [CHR 0x0D, CHR 0x0A, CHR 0x0D, CHR 0x0A] @ ''text'' @
          [CHR 0x0D, CHR 0x0A]))
     = (Inl TypeError, [])"
  by (simp add: Proxy_lines_def Proxy_data_def Proxy_process_message_def)

text \<open>
  C3, as amended.  For a \<open>str\<close> body, whatever the delivery attempt does within the
  exceptions that \<open>_deliver\<close> catches (full acceptance, partial refusal, refusal of all
  recipients, or a failure of the transport or the protocol, that is, every exception
  of \<open>connect\<close>, \<open>sendmail\<close> and \<open>quit\<close> being an \<open>OSError\<close> or an \<open>SMTPException\<close>),
  \<open>Proxy.process_message\<close> returns normally: \<open>_deliver\<close> returns the refusals, they are
  written to the log as the last thing done and are not raised, and the session was
  used at most once (one \<open>connect\<close>, at most one \<open>sendmail\<close>).
\<close>

theorem Proxy_process_message_completes:
  assumes "Proxy_data p (Str body) = Inr text"
    and "\<forall>e. connect s (hostname self) (remote_port self) = Inl e
             \<longrightarrow> is_OSError_or_SMTPException e"
    and "\<forall>e. sendmail s mailfrom rcpttos text = Inl e \<longrightarrow> is_OSError_or_SMTPException e"
    and "\<forall>e. quit s (sendmail s mailfrom rcpttos text) = Inl e
             \<longrightarrow> is_OSError_or_SMTPException e"
  shows "\<exists>refused tr.
           Proxy_deliver s self mailfrom rcpttos text = (Inr refused, tr) \<and>
           Proxy_process_message s self p mailfrom rcpttos (Str body)
             = (Inr (), tr @ [Log_refusals refused]) \<and>
           (filter is_call tr = [Connect (hostname self) (remote_port self)] \<or>
            filter is_call tr = [Connect (hostname self) (remote_port self),
                                 Sendmail mailfrom rcpttos text, Quit])"
proof -
  obtain err refused0 tr0 where
    sess: "Proxy_session s self mailfrom rcpttos text = (err, refused0, tr0)"
    by (cases "Proxy_session s self mailfrom rcpttos text") auto
  have caught: "is_OSError_or_SMTPException e" if "err = Some e" for e
    using Proxy_session_raised [of s self mailfrom rcpttos "text" e refused0 tr0]
      sess that assms(2-4) by blast
  from Proxy_session_calls [OF sess]
  have calls: "filter is_call tr0 = [Connect (hostname self) (remote_port self)] \<or>
      filter is_call tr0 = [Connect (hostname self) (remote_port self),
                            Sendmail mailfrom rcpttos text, Quit]"
    by auto
  have "\<exists>refused logs.
      Proxy_deliver s self mailfrom rcpttos text = (Inr refused, tr0 @ logs) \<and>
      filter is_call logs = []"
  proof (cases err)
    case None
    with sess show ?thesis by (simp add: Proxy_deliver_def)
  next
    case (Some e)
    with caught have "is_OSError_or_SMTPException e" by simp
    with sess Some show ?thesis
      by (cases e) (simp_all add: Proxy_deliver_def)
  qed
  then obtain refused logs where
    d: "Proxy_deliver s self mailfrom rcpttos text = (Inr refused, tr0 @ logs)"
    and l: "filter is_call logs = []"
    by blast
  from d assms(1) have "Proxy_process_message s self p mailfrom rcpttos (Str body)
      = (Inr (), (tr0 @ logs) @ [Log_refusals refused])"
    by (simp add: Proxy_process_message_def)
  moreover from calls l have
    "filter is_call (tr0 @ logs) = [Connect (hostname self) (remote_port self)] \<or>
     filter is_call (tr0 @ logs) = [Connect (hostname self) (remote_port self),
                                    Sendmail mailfrom rcpttos text, Quit]"
    by auto
  ultimately show ?thesis using d by blast
qed

theorem Proxy_process_message_completes_witness:
  "Proxy_data client (Str ''hello'') = Inr (''hello'' @ [CHR 0x0A] @ ''X-Peer: 192.0.2.1'') \<and>
   connect failing_endpoint (hostname local_proxy) (remote_port local_proxy) = Inr () \<and>
   sendmail failing_endpoint ''a@example.com'' [''b@example.com'']
       (''hello'' @ [CHR 0x0A] @ ''X-Peer: 192.0.2.1'')
     = Inl (SMTPException (Some 451) (Some ''try later'')) \<and>
   is_OSError_or_SMTPException (SMTPException (Some 451) (Some ''try later'')) \<and>
   quit failing_endpoint (sendmail failing_endpoint ''a@example.com'' [''b@example.com'']
       (''hello'' @ [CHR 0x0A] @ ''X-Peer: 192.0.2.1'')) = Inr () \<and>
   fst (Proxy_process_message failing_endpoint local_proxy client
          ''a@example.com'' [''b@example.com''] (Str ''hello'')) = Inr ()"
proof -
  have t: "Proxy_data client (Str ''hello'')
      = Inr (''hello'' @ [CHR 0x0A] @ ''X-Peer: 192.0.2.1'')"
    by (simp add: Proxy_data_Str py_insert_def client_def)
  have c: "connect failing_endpoint (hostname local_proxy) (remote_port local_proxy) = Inr ()"
    by (simp add: failing_endpoint_def)
  have m: "sendmail failing_endpoint ''a@example.com'' [''b@example.com'']
      (''hello'' @ [CHR 0x0A] @ ''X-Peer: 192.0.2.1'')
      = Inl (SMTPException (Some 451) (Some ''try later''))"
    by (simp add: failing_endpoint_def)
  have q: "quit failing_endpoint (sendmail failing_endpoint ''a@example.com''
      [''b@example.com''] (''hello'' @ [CHR 0x0A] @ ''X-Peer: 192.0.2.1'')) = Inr ()"
    by (simp add: failing_endpoint_def)
  have caught: "is_OSError_or_SMTPException (SMTPException (Some 451) (Some ''try later''))"
    by simp
  have h1: "\<forall>e. connect failing_endpoint (hostname local_proxy) (remote_port local_proxy) = Inl e
      \<longrightarrow> is_OSError_or_SMTPException e"
    using c by simp
  have h2: "\<forall>e. sendmail failing_endpoint ''a@example.com'' [''b@example.com'']
      (''hello'' @ [CHR 0x0A] @ ''X-Peer: 192.0.2.1'') = Inl e
      \<longrightarrow> is_OSError_or_SMTPException e"
    using m caught by auto
  have h3: "\<forall>e. quit failing_endpoint (sendmail failing_endpoint ''a@example.com''
      [''b@example.com''] (''hello'' @ [CHR 0x0A] @ ''X-Peer: 192.0.2.1'')) = Inl e
      \<longrightarrow> is_OSError_or_SMTPException e"
    using q by simp
  from Proxy_process_message_completes [OF t h1 h2 h3]
  have "fst (Proxy_process_message failing_endpoint local_proxy client
      ''a@example.com'' [''b@example.com''] (Str ''hello'')) = Inr ()"
    by auto
  with t c m caught q show ?thesis by blast
qed

text \<open>
  C3, as stated, fails.  With a relay target that accepts every recipient, the \<open>str\<close>
  body \<open>caf\xe9\<close> makes \<open>sendmail\<close> raise \<open>UnicodeEncodeError\<close>, which \<open>_deliver\<close> does
  not catch: it leaves \<open>process_message\<close> after \<open>quit\<close>, and nothing is logged.  A
  \<open>bytes\<close> body leaves \<open>process_message\<close> with \<open>TypeError\<close> before any delivery.
\<close>

theorem Proxy_process_message_raises:
  "Proxy_process_message ascii_endpoint local_proxy client ''a@example.com'' [''b@example.com'']
       (Str (''caf'' @ [CHR 0xE9]))
     = (Inl UnicodeEncodeError,
        [Connect ''localhost'' 25,
         Sendmail ''a@example.com'' [''b@example.com'']
           (''caf'' @ [CHR 0xE9, CHR 0x0A] @ ''X-Peer: 192.0.2.1''),
         Quit]) \<and>
   Proxy_process_message ascii_endpoint local_proxy client ''a@example.com'' [''b@example.com'']
       (Bytes ''hello'')
     = (Inl TypeError, [])"
  by (simp add: Proxy_process_message_def Proxy_data_def Proxy_lines_def Proxy_deliver_def
      Proxy_session_def ascii_endpoint_def local_proxy_def client_def py_insert_def
      x_peer_line_def NEWLINE_def Let_def)




text \<open>
  C6, as amended.  Once \<open>connect\<close> has returned, \<open>_deliver\<close> calls \<open>sendmail\<close> once and
  then \<open>quit\<close> once, whatever \<open>sendmail\<close> and \<open>quit\<close> do (return or raise), and it
  makes no further call on the session before it returns or raises.  When \<open>connect\<close>
  itself raises, the only call made is \<open>connect\<close>: no session was established and
  \<open>quit\<close> is not called.
\<close>

theorem Proxy_deliver_quits_once_connected:
  "(connect s (hostname self) (remote_port self) = Inr () \<longrightarrow>
      (\<exists>logs. snd (Proxy_deliver s self mailfrom rcpttos data)
                = [Connect (hostname self) (remote_port self),
                   Sendmail mailfrom rcpttos data, Quit] @ logs \<and>
              filter is_call logs = [])) \<and>
   (\<forall>e. connect s (hostname self) (remote_port self) = Inl e \<longrightarrow>
      (\<exists>logs. snd (Proxy_deliver s self mailfrom rcpttos data)
                = [Connect (hostname self) (remote_port self)] @ logs \<and>
              filter is_call logs = []))"
proof (intro conjI impI allI)
  assume "connect s (hostname self) (remote_port self) = Inr ()"
  from Proxy_session_connected [OF this] obtain err refused where
    "Proxy_session s self mailfrom rcpttos data
       = (err, refused, [Connect (hostname self) (remote_port self),
                         Sendmail mailfrom rcpttos data, Quit])"
    by blast
  from Proxy_deliver_trace [OF this]
  show "\<exists>logs. snd (Proxy_deliver s self mailfrom rcpttos data)
                = [Connect (hostname self) (remote_port self),
                   Sendmail mailfrom rcpttos data, Quit] @ logs \<and>
              filter is_call logs = []" .
next
  fix e
  assume "connect s (hostname self) (remote_port self) = Inl e"
  from Proxy_deliver_trace [OF Proxy_session_connect_failed [OF this]]
  show "\<exists>logs. snd (Proxy_deliver s self mailfrom rcpttos data)
                = [Connect (hostname self) (remote_port self)] @ logs \<and>
              filter is_call logs = []" .
qed

theorem Proxy_deliver_quits_once_connected_witness:
  "connect failing_endpoint (hostname local_proxy) (remote_port local_proxy) = Inr () \<and>
   (\<exists>logs. snd (Proxy_deliver failing_endpoint local_proxy ''a@example.com''
                  [''b@example.com''] ''hello'')
             = [Connect ''localhost'' 25,
                Sendmail ''a@example.com'' [''b@example.com''] ''hello'', Quit] @ logs \<and>
           filter is_call logs = []) \<and>
   connect unreachable_endpoint (hostname local_proxy) (remote_port local_proxy) = Inl OSError \<and>
   (\<exists>logs. snd (Proxy_deliver unreachable_endpoint local_proxy ''a@example.com''
                  [''b@example.com''] ''hello'')
             = [Connect ''localhost'' 25] @ logs \<and>
           filter is_call logs = [])"
proof -
  have h1: "connect failing_endpoint (hostname local_proxy) (remote_port local_proxy) = Inr ()"
    by (simp add: failing_endpoint_def)
  have h2: "connect unreachable_endpoint (hostname local_proxy) (remote_port local_proxy)
      = Inl OSError"
    by (simp add: unreachable_endpoint_def)
  have n: "hostname local_proxy = ''localhost''" "remote_port local_proxy = 25"
    by (simp_all add: local_proxy_def)
  from Proxy_deliver_quits_once_connected [of failing_endpoint local_proxy
      "''a@example.com''" "[''b@example.com'']" "''hello''"] h1
  have a: "\<exists>logs. snd (Proxy_deliver failing_endpoint local_proxy ''a@example.com''
                  [''b@example.com''] ''hello'')
             = [Connect ''localhost'' 25,
                Sendmail ''a@example.com'' [''b@example.com''] ''hello'', Quit] @ logs \<and>
           filter is_call logs = []"
    by (simp add: n)
  from Proxy_deliver_quits_once_connected [of unreachable_endpoint local_proxy
      "''a@example.com''" "[''b@example.com'']" "''hello''"] h2
  have b: "\<exists>logs. snd (Proxy_deliver unreachable_endpoint local_proxy ''a@example.com''
                  [''b@example.com''] ''hello'')
             = [Connect ''localhost'' 25] @ logs \<and>
           filter is_call logs = []"
    by (simp add: n)
  from h1 a h2 b show ?thesis by blast
qed

text \<open>
  C6, as stated, fails: when the relay target refuses the connection, \<open>_deliver\<close> returns
  without having called \<open>quit\<close>.
\<close>

theorem Proxy_deliver_unreachable_no_quit:
  "Proxy_deliver unreachable_endpoint local_proxy ''a@example.com'' [''b@example.com''] ''hello''
     = (Inr [(''b@example.com'', (- 1, ''ignore''))],
        [Connect ''localhost'' 25, Log_exception OSError]) \<and>
   Quit \<notin> set (snd (Proxy_deliver unreachable_endpoint local_proxy
                       ''a@example.com'' [''b@example.com''] ''hello''))"
  by (simp add: Proxy_deliver_def Proxy_session_def unreachable_endpoint_def local_proxy_def
      refuse_all_def Let_def)

text \<open>
  C8.  \<open>Debugging.from_cli\<close> with the argument list \<open>["stdout"]\<close> gives a handler whose
  \<open>process_message\<close> prints to standard output and leaves standard error as it was; with
  \<open>["stderr"]\<close> it gives one that prints to standard error and leaves standard output
  as it was.  With a single argument that is neither of the two it ends in the usage
  error, and so it does with every list of more than one argument.
\<close>

theorem Debugging_from_cli_cases:
  "Debugging_from_cli [''stdout''] = Inr \<lparr>stream = Stdout\<rparr> \<and>
   (\<exists>ws. stdout (Debugging_process_message repr decode \<lparr>stream = Stdout\<rparr>
                   p mailfrom rcpttos data kw c)
           = stdout c @ ''---------- MESSAGE FOLLOWS ----------'' # ws) \<and>
   stderr (Debugging_process_message repr decode \<lparr>stream = Stdout\<rparr> p mailfrom rcpttos data kw c)
     = stderr c \<and>
   Debugging_from_cli [''stderr''] = Inr \<lparr>stream = Stderr\<rparr> \<and>
   (\<exists>ws. stderr (Debugging_process_message repr decode \<lparr>stream = Stderr\<rparr>
                   p mailfrom rcpttos data kw c)
           = stderr c @ ''---------- MESSAGE FOLLOWS ----------'' # ws) \<and>
   stdout (Debugging_process_message repr decode \<lparr>stream = Stderr\<rparr> p mailfrom rcpttos data kw c)
     = stdout c \<and>
   (a \<noteq> ''stdout'' \<and> a \<noteq> ''stderr'' \<longrightarrow>
      Debugging_from_cli [a] = Inl (UsageError ''Debugging usage: [stdout|stderr]'')) \<and>
   (length args > 1 \<longrightarrow>
      Debugging_from_cli args = Inl (UsageError ''Debugging usage: [stdout|stderr]''))"
proof -
  have out: "Debugging_from_cli [''stdout''] = Inr \<lparr>stream = Stdout\<rparr>"
    by (simp add: Debugging_from_cli_def Debugging_init_def)
  have err: "Debugging_from_cli [''stderr''] = Inr \<lparr>stream = Stderr\<rparr>"
    by (simp add: Debugging_from_cli_def Debugging_init_def)
  have o1: "\<exists>ws. stdout (Debugging_process_message repr decode \<lparr>stream = Stdout\<rparr>
                   p mailfrom rcpttos data kw c)
           = stdout c @ ''---------- MESSAGE FOLLOWS ----------'' # ws"
    using Debugging_process_message_same [of "\<lparr>stream = Stdout\<rparr>" repr decode p mailfrom
        rcpttos data kw c]
    by simp
  have o2: "stderr (Debugging_process_message repr decode \<lparr>stream = Stdout\<rparr>
                   p mailfrom rcpttos data kw c) = stderr c"
    using Debugging_process_message_other [of Stderr "\<lparr>stream = Stdout\<rparr>" repr decode p
        mailfrom rcpttos data kw c]
    by simp
  have e1: "\<exists>ws. stderr (Debugging_process_message repr decode \<lparr>stream = Stderr\<rparr>
                   p mailfrom rcpttos data kw c)
           = stderr c @ ''---------- MESSAGE FOLLOWS ----------'' # ws"
    using Debugging_process_message_same [of "\<lparr>stream = Stderr\<rparr>" repr decode p mailfrom
        rcpttos data kw c]
    by simp
  have e2: "stdout (Debugging_process_message repr decode \<lparr>stream = Stderr\<rparr>
                   p mailfrom rcpttos data kw c) = stdout c"
    using Debugging_process_message_other [of Stdout "\<lparr>stream = Stderr\<rparr>" repr decode p
        mailfrom rcpttos data kw c]
    by simp
  have bad: "a \<noteq> ''stdout'' \<and> a \<noteq> ''stderr'' \<longrightarrow>
      Debugging_from_cli [a] = Inl (UsageError ''Debugging usage: [stdout|stderr]'')"
    by (simp add: Debugging_from_cli_def)
  have many: "length args > 1 \<longrightarrow>
      Debugging_from_cli args = Inl (UsageError ''Debugging usage: [stdout|stderr]'')"
    by (simp add: Debugging_from_cli_def)
  from out o1 o2 err e1 e2 bad many show ?thesis by blast
qed

theorem Debugging_from_cli_cases_witness:
  "''bogus'' \<noteq> ''stdout'' \<and> ''bogus'' \<noteq> ''stderr'' \<and>
   Debugging_from_cli [''bogus''] = Inl (UsageError ''Debugging usage: [stdout|stderr]'') \<and>
   length [''stdout'', ''stderr''] > 1 \<and>
   Debugging_from_cli [''stdout'', ''stderr'']
     = Inl (UsageError ''Debugging usage: [stdout|stderr]'')"
  using Debugging_from_cli_cases [of "\<lambda>p. host p" "\<lambda>l. l" client "''a@example.com''"
      "[''b@example.com'']" "Str ''hello''" "\<lparr>mail_options = None, rcpt_options = None\<rparr>"
      "\<lparr>stdout = [], stderr = []\<rparr>" "''bogus''" "[''stdout'', ''stderr'']"]
  by simp


text \<open>
  C10, as amended.  When no line of the body is empty, \<open>Debugging.process_message\<close>
  prints the opening line, the option lines, the lines of the body and the closing
  line, and nothing else: no \<open>X-Peer:\<close> line is put in.  The line is printed only when
  an empty line is met, once, before the first of them.  \<open>Proxy.process_message\<close>, given
  the same body as a \<open>str\<close>, does add its \<open>X-Peer:\<close> line, after the whole body.
\<close>

theorem Debugging_no_blank_line_no_peer:
  "([] \<notin> set (content_splitlines data) \<longrightarrow>
      written (stream self)
          (Debugging_process_message repr decode self p mailfrom rcpttos data kw c)
        = written (stream self) c @
          [''---------- MESSAGE FOLLOWS ----------''] @
          (case mail_options kw of None \<Rightarrow> [] | Some m \<Rightarrow> [''mail options: '' @ m]) @
          (case rcpt_options kw of None \<Rightarrow> []
           | Some r \<Rightarrow> [''rcpt options: '' @ r @ [CHR 0x0A]]) @
          map (case data of Str s \<Rightarrow> (\<lambda>line. line) | Bytes b \<Rightarrow> decode)
            (content_splitlines data) @
          [''------------ END MESSAGE ------------'']) \<and>
   ([] \<in> set (content_splitlines data) \<longrightarrow>
      written (stream self)
          (Debugging_process_message repr decode self p mailfrom rcpttos data kw c)
        = written (stream self) c @
          [''---------- MESSAGE FOLLOWS ----------''] @
          (case mail_options kw of None \<Rightarrow> [] | Some m \<Rightarrow> [''mail options: '' @ m]) @
          (case rcpt_options kw of None \<Rightarrow> []
           | Some r \<Rightarrow> [''rcpt options: '' @ r @ [CHR 0x0A]]) @
          map (case data of Str s \<Rightarrow> (\<lambda>line. line) | Bytes b \<Rightarrow> decode)
            (takeWhile (\<lambda>l. l \<noteq> []) (content_splitlines data)) @
          [''X-Peer: '' @ repr p] @
          map (case data of Str s \<Rightarrow> (\<lambda>line. line) | Bytes b \<Rightarrow> decode)
            (dropWhile (\<lambda>l. l \<noteq> []) (content_splitlines data)) @
          [''------------ END MESSAGE ------------'']) \<and>
   (data = Str body \<and> [] \<notin> set (content_splitlines data) \<longrightarrow>
      Proxy_data p data
        = Inr (if body = [] \<or> last body = CHR 0x0A
               then body @ ''X-Peer: '' @ host p @ [CHR 0x0A]
               else body @ [CHR 0x0A] @ ''X-Peer: '' @ host p))"
proof (intro conjI impI)
  assume "[] \<notin> set (content_splitlines data)"
  then show "written (stream self)
          (Debugging_process_message repr decode self p mailfrom rcpttos data kw c)
        = written (stream self) c @
          [''---------- MESSAGE FOLLOWS ----------''] @
          (case mail_options kw of None \<Rightarrow> [] | Some m \<Rightarrow> [''mail options: '' @ m]) @
          (case rcpt_options kw of None \<Rightarrow> []
           | Some r \<Rightarrow> [''rcpt options: '' @ r @ [CHR 0x0A]]) @
          map (case data of Str s \<Rightarrow> (\<lambda>line. line) | Bytes b \<Rightarrow> decode)
            (content_splitlines data) @
          [''------------ END MESSAGE ------------'']"
    by (simp add: Debugging_process_message_def Debugging_print_message_content_def
        written_py_print_same print_kws_same print_lines_no_blank)
next
  assume "[] \<in> set (content_splitlines data)"
  then show "written (stream self)
          (Debugging_process_message repr decode self p mailfrom rcpttos data kw c)
        = written (stream self) c @
          [''---------- MESSAGE FOLLOWS ----------''] @
          (case mail_options kw of None \<Rightarrow> [] | Some m \<Rightarrow> [''mail options: '' @ m]) @
          (case rcpt_options kw of None \<Rightarrow> []
           | Some r \<Rightarrow> [''rcpt options: '' @ r @ [CHR 0x0A]]) @
          map (case data of Str s \<Rightarrow> (\<lambda>line. line) | Bytes b \<Rightarrow> decode)
            (takeWhile (\<lambda>l. l \<noteq> []) (content_splitlines data)) @
          [''X-Peer: '' @ repr p] @
          map (case data of Str s \<Rightarrow> (\<lambda>line. line) | Bytes b \<Rightarrow> decode)
            (dropWhile (\<lambda>l. l \<noteq> []) (content_splitlines data)) @
          [''------------ END MESSAGE ------------'']"
    by (simp add: Debugging_process_message_def Debugging_print_message_content_def
        written_py_print_same print_kws_same print_lines_blank format_peer_def)
next
  assume a: "data = Str body \<and> [] \<notin> set (content_splitlines data)"
  then have "[] \<notin> set (splitlines str_line_end [] body)"
    by (auto simp: content_splitlines_def)
  moreover have "str_line_end (CHR 0x0A)"
    by (simp add: str_line_end_def)
  ultimately show "Proxy_data p data
        = Inr (if body = [] \<or> last body = CHR 0x0A
               then body @ ''X-Peer: '' @ host p @ [CHR 0x0A]
               else body @ [CHR 0x0A] @ ''X-Peer: '' @ host p)"
    using a Proxy_data_after_body [of str_line_end body p] by simp
qed

theorem Debugging_no_blank_line_no_peer_witness:
  "content_splitlines (Str (''a: b'' @ [CHR 0x0A])) = [''a: b''] \<and>
   stdout (Debugging_process_message client_repr decode_ascii \<lparr>stream = Stdout\<rparr> client
             ''a@example.com'' [''b@example.com''] (Str (''a: b'' @ [CHR 0x0A]))
             \<lparr>mail_options = None, rcpt_options = None\<rparr> \<lparr>stdout = [], stderr = []\<rparr>)
     = [''---------- MESSAGE FOLLOWS ----------'', ''a: b'',
        ''------------ END MESSAGE ------------''] \<and>
   Proxy_data client (Str (''a: b'' @ [CHR 0x0A]))
     = Inr (''a: b'' @ [CHR 0x0A] @ ''X-Peer: 192.0.2.1'' @ [CHR 0x0A]) \<and>
   content_splitlines (Bytes (''a: b'' @ [CHR 0x0A, CHR 0x0A] @ ''text''))
     = [''a: b'', [], ''text''] \<and>
   stdout (Debugging_process_message client_repr decode_ascii \<lparr>stream = Stdout\<rparr> client
             ''a@example.com'' [''b@example.com'']
             (Bytes (''a: b'' @ [CHR 0x0A, CHR 0x0A] @ ''text''))
             \<lparr>mail_options = None, rcpt_options = None\<rparr> \<lparr>stdout = [], stderr = []\<rparr>)
     = [''---------- MESSAGE FOLLOWS ----------'', ''a: b'',
        ''X-Peer: ('' @ [CHR 0x27] @ ''192.0.2.1'' @ [CHR 0x27] @ '', 4000)'', [],
        ''text'', ''------------ END MESSAGE ------------'']"
proof -
  have lines: "content_splitlines (Str (''a: b'' @ [CHR 0x0A])) = [''a: b'']"
    by (simp add: content_splitlines_def str_line_end_def)
  have lines': "content_splitlines (Bytes (''a: b'' @ [CHR 0x0A, CHR 0x0A] @ ''text''))
      = [''a: b'', [], ''text'']"
    by (simp add: content_splitlines_def bytes_line_end_def)
  have h1: "[] \<notin> set (content_splitlines (Str (''a: b'' @ [CHR 0x0A])))"
    using lines by simp
  have h3: "[] \<in> set (content_splitlines (Bytes (''a: b'' @ [CHR 0x0A, CHR 0x0A] @ ''text'')))"
    using lines' by simp
  from Debugging_no_blank_line_no_peer [where data = "Str (''a: b'' @ [CHR 0x0A])"
      and self = "\<lparr>stream = Stdout\<rparr>" and repr = client_repr and decode = decode_ascii
      and p = client and mailfrom = "''a@example.com''" and rcpttos = "[''b@example.com'']"
      and kw = "\<lparr>mail_options = None, rcpt_options = None\<rparr>"
      and c = "\<lparr>stdout = [], stderr = []\<rparr>" and body = "''a: b'' @ [CHR 0x0A]"] h1
  have a: "stdout (Debugging_process_message client_repr decode_ascii \<lparr>stream = Stdout\<rparr> client
             ''a@example.com'' [''b@example.com''] (Str (''a: b'' @ [CHR 0x0A]))
             \<lparr>mail_options = None, rcpt_options = None\<rparr> \<lparr>stdout = [], stderr = []\<rparr>)
     = [''---------- MESSAGE FOLLOWS ----------'', ''a: b'',
        ''------------ END MESSAGE ------------'']"
    and b: "Proxy_data client (Str (''a: b'' @ [CHR 0x0A]))
     = Inr (''a: b'' @ [CHR 0x0A] @ ''X-Peer: 192.0.2.1'' @ [CHR 0x0A])"
    using lines by (simp_all add: client_def)
  from Debugging_no_blank_line_no_peer [where
      data = "Bytes (''a: b'' @ [CHR 0x0A, CHR 0x0A] @ ''text'')"
      and self = "\<lparr>stream = Stdout\<rparr>" and repr = client_repr and decode = decode_ascii
      and p = client and mailfrom = "''a@example.com''" and rcpttos = "[''b@example.com'']"
      and kw = "\<lparr>mail_options = None, rcpt_options = None\<rparr>"
      and c = "\<lparr>stdout = [], stderr = []\<rparr>"] h3
  have c: "stdout (Debugging_process_message client_repr decode_ascii \<lparr>stream = Stdout\<rparr> client
             ''a@example.com'' [''b@example.com'']
             (Bytes (''a: b'' @ [CHR 0x0A, CHR 0x0A] @ ''text''))
             \<lparr>mail_options = None, rcpt_options = None\<rparr> \<lparr>stdout = [], stderr = []\<rparr>)
     = [''---------- MESSAGE FOLLOWS ----------'', ''a: b'',
        ''X-Peer: ('' @ [CHR 0x27] @ ''192.0.2.1'' @ [CHR 0x27] @ '', 4000)'', [],
        ''text'', ''------------ END MESSAGE ------------'']"
    using lines' by (simp add: client_repr_def decode_ascii_def)
  from lines a b lines' c show ?thesis by blast
qed

text \<open>
  C10, as stated, fails in its comparison.  For a \<open>bytes\<close> body with no blank line,
  \<open>Debugging\<close> prints no peer line, and \<open>Proxy\<close> does not add one at the end either: it
  raises \<open>TypeError\<close> and delivers nothing.
\<close>

theorem Proxy_bytes_body_no_peer_line:
  "content_splitlines (Bytes (''a: b'' @ [CHR 0x0A] @ ''text'')) = [''a: b'', ''text''] \<and>
   stdout (Debugging_process_message client_repr decode_ascii \<lparr>stream = Stdout\<rparr> client
             ''a@example.com'' [''b@example.com''] (Bytes (''a: b'' @ [CHR 0x0A] @ ''text''))
             \<lparr>mail_options = None, rcpt_options = None\<rparr> \<lparr>stdout = [], stderr = []\<rparr>)
     = [''---------- MESSAGE FOLLOWS ----------'', ''a: b'', ''text'',
        ''------------ END MESSAGE ------------''] \<and>
   Proxy_data client (Bytes (''a: b'' @ [CHR 0x0A] @ ''text'')) = Inl TypeError \<and>
   Proxy_process_message ascii_endpoint local_proxy client ''a@example.com'' [''b@example.com'']
       (Bytes (''a: b'' @ [CHR 0x0A] @ ''text''))
     = (Inl TypeError, [])"
  by (simp add: content_splitlines_def bytes_line_end_def Debugging_process_message_def
      Debugging_print_message_content_def print_kws_def decode_ascii_def
      Proxy_data_def Proxy_lines_def Proxy_process_message_def)

text \<open>
  C2.  \<open>Message.process_message\<close> and \<open>AsyncMessage.process_message\<close> hand to
  \<open>handle_message\<close> the decoded message with exactly three headers added after the ones
  it had: \<open>X-Peer\<close> with the string form of the peer, \<open>X-MailFrom\<close> with the envelope
  sender and \<open>X-RcptTos\<close> with the recipients, the first one followed by every further
  one behind a comma and a space.  The headers the decoder produced, those of the same
  names included, stay as they were and in their places, and so does the body content.
  An exception of \<open>handle_message\<close> leaves \<open>process_message\<close>; what it returns is
  dropped.  With a step that keeps what it is given, what is kept is that message.
\<close>

theorem Message_provenance_headers:
  "Message_process_message message_from_bytes message_from_string str_peer handle_message
       message_class p mailfrom rcpttos (Content (Bytes b)) w
     = (case handle_message ((message_from_bytes b message_class)
            \<lparr>headers := headers (message_from_bytes b message_class) @
               [(''X-Peer'', str_peer p), (''X-MailFrom'', mailfrom),
                (''X-RcptTos'', (case rcpttos of [] \<Rightarrow> []
                                 | r # rs \<Rightarrow> r @ concat (map (\<lambda>x. '', '' @ x) rs)))]\<rparr>) w of
          (Inl e, w') \<Rightarrow> (Inl e, w')
        | (Inr v, w') \<Rightarrow> (Inr (), w')) \<and>
   Message_process_message message_from_bytes message_from_string str_peer handle_message
       message_class p mailfrom rcpttos (Content (Str s)) w
     = (case handle_message ((message_from_string s message_class)
            \<lparr>headers := headers (message_from_string s message_class) @
               [(''X-Peer'', str_peer p), (''X-MailFrom'', mailfrom),
                (''X-RcptTos'', (case rcpttos of [] \<Rightarrow> []
                                 | r # rs \<Rightarrow> r @ concat (map (\<lambda>x. '', '' @ x) rs)))]\<rparr>) w of
          (Inl e, w') \<Rightarrow> (Inl e, w')
        | (Inr v, w') \<Rightarrow> (Inr (), w')) \<and>
   AsyncMessage_process_message message_from_bytes message_from_string str_peer handle_async
       message_class p mailfrom rcpttos (Content (Bytes b)) loop w
     = (case handle_async ((message_from_bytes b message_class)
            \<lparr>headers := headers (message_from_bytes b message_class) @
               [(''X-Peer'', str_peer p), (''X-MailFrom'', mailfrom),
                (''X-RcptTos'', (case rcpttos of [] \<Rightarrow> []
                                 | r # rs \<Rightarrow> r @ concat (map (\<lambda>x. '', '' @ x) rs)))]\<rparr>) loop w of
          (Inl e, w') \<Rightarrow> (Inl e, w')
        | (Inr v, w') \<Rightarrow> (Inr (), w')) \<and>
   AsyncMessage_process_message message_from_bytes message_from_string str_peer handle_async
       message_class p mailfrom rcpttos (Content (Str s)) loop w
     = (case handle_async ((message_from_string s message_class)
            \<lparr>headers := headers (message_from_string s message_class) @
               [(''X-Peer'', str_peer p), (''X-MailFrom'', mailfrom),
                (''X-RcptTos'', (case rcpttos of [] \<Rightarrow> []
                                 | r # rs \<Rightarrow> r @ concat (map (\<lambda>x. '', '' @ x) rs)))]\<rparr>) loop w of
          (Inl e, w') \<Rightarrow> (Inl e, w')
        | (Inr v, w') \<Rightarrow> (Inr (), w')) \<and>
   Message_process_message message_from_bytes message_from_string str_peer keep_message
       message_class p ''a@example.com'' [''b@example.com'', ''c@example.com'']
       (Content (Str s)) []
     = (Inr (),
        [(message_from_string s message_class)
           \<lparr>headers := headers (message_from_string s message_class) @
              [(''X-Peer'', str_peer p), (''X-MailFrom'', ''a@example.com''),
               (''X-RcptTos'', ''b@example.com, c@example.com'')]\<rparr>]) \<and>
   take (length (headers m)) (headers (set_provenance str_peer p mailfrom rcpttos m))
     = headers m \<and>
   drop (length (headers m)) (headers (set_provenance str_peer p mailfrom rcpttos m))
     = [(''X-Peer'', str_peer p), (''X-MailFrom'', mailfrom),
        (''X-RcptTos'', (case rcpttos of [] \<Rightarrow> []
                         | r # rs \<Rightarrow> r @ concat (map (\<lambda>x. '', '' @ x) rs)))] \<and>
   payload (set_provenance str_peer p mailfrom rcpttos m) = payload m"
  by (simp add: Message_process_message_def AsyncMessage_process_message_def decode_data_def
      keep_message_def set_provenance_explicit set_provenance_example)

text \<open>
  C5.  The body decides the decoder: a \<open>bytes\<close> body goes through \<open>message_from_bytes\<close>,
  a \<open>str\<close> body through \<open>message_from_string\<close>.  A body that is neither ends
  \<open>process_message\<close> with the \<open>AssertionError\<close> of the \<open>assert\<close> (the type mismatch),
  whatever \<open>handle_message\<close> is: it is not caught and \<open>handle_message\<close> is not reached.
  The same holds for \<open>AsyncMessage.process_message\<close>.
\<close>

theorem Message_decode_paths:
  "decode_data message_from_bytes message_from_string message_class (Content (Bytes b))
     = Inr (message_from_bytes b message_class) \<and>
   decode_data message_from_bytes message_from_string message_class (Content (Str s))
     = Inr (message_from_string s message_class) \<and>
   decode_data message_from_bytes message_from_string message_class NeitherStrNorBytes
     = Inl AssertionError \<and>
   Message_process_message message_from_bytes message_from_string str_peer handle_message
       message_class p mailfrom rcpttos NeitherStrNorBytes w = (Inl AssertionError, w) \<and>
   AsyncMessage_process_message message_from_bytes message_from_string str_peer handle_async
       message_class p mailfrom rcpttos NeitherStrNorBytes loop w = (Inl AssertionError, w) \<and>
   Message_process_message message_from_bytes message_from_string str_peer handle_message
       message_class p mailfrom rcpttos (Content (Bytes b)) w
     = (case handle_message (set_provenance str_peer p mailfrom rcpttos
                               (message_from_bytes b message_class)) w of
          (Inl e, w') \<Rightarrow> (Inl e, w')
        | (Inr v, w') \<Rightarrow> (Inr (), w')) \<and>
   Message_process_message message_from_bytes message_from_string str_peer handle_message
       message_class p mailfrom rcpttos (Content (Str s)) w
     = (case handle_message (set_provenance str_peer p mailfrom rcpttos
                               (message_from_string s message_class)) w of
          (Inl e, w') \<Rightarrow> (Inl e, w')
        | (Inr v, w') \<Rightarrow> (Inr (), w'))"
  by (simp add: Message_process_message_def AsyncMessage_process_message_def decode_data_def)

end
